theory Spec2Isabelle
  imports Main
begin

section \<open>The header \<open>kmp_process_sys.h\<close> under the C preprocessor\<close>

text \<open>
  The repository's native-interop source is one C header,
  \<^verbatim>\<open>library/process/src/nativeInterop/cinterop/kmp_process_sys.h\<close>:
  \<^verbatim>\<open>
   1-15  /* licence comment */
   16
   17    /* https://youtrack.jetbrains.com/issue/KT-75722 */
   18    #ifndef KMP_PROCESS_SYS_H
   19    #define KMP_PROCESS_SYS_H
   20
   21    #ifdef __ANDROID__
   22    int __SYS_pipe2();
   23    #endif /* !defined(__ANDROID__) */
   24
   25    #endif /* !defined(KMP_PROCESS_SYS_H) */
  \<close>
  What the header does is what translation phase 4 of a C compiler does with it. The
  header is modelled line by line, after comments have been replaced by white space, and
  the preprocessor as a function over the lines: a table of macro definitions, a stack of
  open conditional groups, and the sequence of preprocessing tokens passed on to the
  compiler.
\<close>

subsection \<open>Tokens, lines and the macro table\<close>

text \<open>
  A preprocessing token is an identifier (keywords such as \<open>int\<close> are identifiers to the
  preprocessor), a number or a punctuator. Only identifiers can name macros.
\<close>

datatype token = Ident string | Number string | Punct string

text \<open>The directives the header uses, and text lines. A blank line is \<open>Text []\<close>.\<close>

datatype line =
    Ifndef string
  | Ifdef string
  | Define string "token list"
  | Endif
  | Text "token list"

text \<open>
  The macro table maps a macro name to its replacement list (object-like macros, as set
  by \<^verbatim>\<open>#define NAME tokens\<close> or \<^verbatim>\<open>-DNAME=tokens\<close>). The newest definition is first.
\<close>

type_synonym macro_table = "(string \<times> token list) list"

definition defined :: "macro_table \<Rightarrow> string \<Rightarrow> bool" where
  "defined env n = (map_of env n \<noteq> None)"

subsection \<open>Macro replacement in text lines\<close>

text \<open>
  Every identifier of a text line that names a macro is replaced by the macro's
  replacement list, which is rescanned for further macros; a macro is not replaced again
  inside its own replacement (\<open>hide\<close> holds the names under replacement).

  The table holds object-like macros with plain replacement lists. Function-like macros,
  the operator \<^verbatim>\<open>##\<close> and the built-in macros that depend on the position
  (\<^verbatim>\<open>__LINE__\<close>, \<^verbatim>\<open>__FILE__\<close>) are not modelled. What is stated below about the tokens line
  22 leaves is stated for builds in which its identifiers \<open>int\<close> and \<^verbatim>\<open>__SYS_pipe2\<close> name
  no macro, where the line passes unchanged, or at a table of plain replacement lists.
\<close>

function expand :: "macro_table \<Rightarrow> string list \<Rightarrow> token list \<Rightarrow> token list" where
  "expand env hide [] = []"
| "expand env hide (Number k # ts) = Number k # expand env hide ts"
| "expand env hide (Punct p # ts) = Punct p # expand env hide ts"
| "expand env hide (Ident n # ts) =
     (case map_of env n of
        None \<Rightarrow> Ident n # expand env hide ts
      | Some body \<Rightarrow>
          if n \<in> set hide then Ident n # expand env hide ts
          else expand env (n # hide) body @ expand env hide ts)"
  by pat_completeness auto

lemma unhidden_decreases:
  assumes "map_of env n = Some body" and "n \<notin> set hide"
  shows "card (fst ` set env - insert n (set hide)) < card (fst ` set env - set hide)"
proof -
  from assms(1) have "n \<in> fst ` set env"
    by (metis map_of_eq_None_iff option.distinct(1))
  with assms(2) have "fst ` set env - insert n (set hide) \<subset> fst ` set env - set hide"
    by auto
  then show ?thesis
    by (simp add: psubset_card_mono)
qed

termination expand
  by (relation "inv_image (less_than <*lex*> less_than)
                  (\<lambda>(env, hide, ts). (card (fst ` set env - set hide), length ts))")
     (auto simp: unhidden_decreases)

subsection \<open>The header\<close>

definition KMP_PROCESS_SYS_H :: string where
  "KMP_PROCESS_SYS_H = ''KMP_PROCESS_SYS_H''"

definition ANDROID :: string where
  "ANDROID = ''__ANDROID__''"

definition SYS_pipe2 :: string where
  "SYS_pipe2 = ''__SYS_pipe2''"

text \<open>Line 22, \<^verbatim>\<open>int __SYS_pipe2();\<close>, as preprocessing tokens.\<close>

definition decl_line :: "token list" where
  "decl_line = [Ident ''int'', Ident SYS_pipe2, Punct ''('', Punct '')'', Punct '';'']"

definition kmp_process_sys_h :: "line list" where
  "kmp_process_sys_h =
    [ Text [],                          \<comment> \<open>lines 1-15: the licence comment\<close>
      Text [],                          \<comment> \<open>line 16\<close>
      Text [],                          \<comment> \<open>line 17: comment with the issue link\<close>
      Ifndef KMP_PROCESS_SYS_H,         \<comment> \<open>line 18\<close>
      Define KMP_PROCESS_SYS_H [],      \<comment> \<open>line 19\<close>
      Text [],                          \<comment> \<open>line 20\<close>
      Ifdef ANDROID,                    \<comment> \<open>line 21\<close>
      Text decl_line,                   \<comment> \<open>line 22\<close>
      Endif,                            \<comment> \<open>line 23\<close>
      Text [],                          \<comment> \<open>line 24\<close>
      Endif ]                           \<comment> \<open>line 25\<close>"

subsection \<open>Conditional inclusion\<close>

text \<open>
  An open conditional group: the macro it tests, whether it is \<^verbatim>\<open>#ifdef\<close> (as opposed to
  \<^verbatim>\<open>#ifndef\<close>), and whether its condition held when it was opened.
\<close>

record cond =
  macro :: string
  positive :: bool
  taken :: bool

text \<open>Lines are processed only while every open group was taken.\<close>

definition active :: "cond list \<Rightarrow> bool" where
  "active cs = list_all taken cs"

text \<open>The \<^verbatim>\<open>#ifdef\<close> macros a line stands under, outermost first.\<close>

definition guards :: "cond list \<Rightarrow> string list" where
  "guards cs = rev (map macro (filter positive cs))"

text \<open>
  The state of a translation unit while it is preprocessed: the macro table, and the
  tokens passed on so far, each with the \<^verbatim>\<open>#ifdef\<close> macros it was emitted under (a
  record of provenance; the compiler sees the tokens only).
\<close>

record unit_state =
  macros :: macro_table
  out :: "(string list \<times> token) list"

datatype pp_error = EndifWithoutIf | UnterminatedConditional

text \<open>
  One pass over the lines of a file. A conditional directive opens a group, also inside a
  group that is skipped; \<^verbatim>\<open>#define\<close> and text lines act only while every open group was
  taken; \<^verbatim>\<open>#endif\<close> closes the innermost group and is an error without one; a group
  still open at the end of the file is an error. A \<^verbatim>\<open>#define\<close> puts its definition in
  front of the table (the header's only \<^verbatim>\<open>#define\<close>, line 19, is reached when the macro
  has no definition yet).
\<close>

fun run :: "line list \<Rightarrow> cond list \<Rightarrow> unit_state \<Rightarrow> pp_error + unit_state" where
  "run [] cs st = (if cs = [] then Inr st else Inl UnterminatedConditional)"
| "run (Ifndef n # ls) cs st =
     run ls (\<lparr>macro = n, positive = False, taken = \<not> defined (macros st) n\<rparr> # cs) st"
| "run (Ifdef n # ls) cs st =
     run ls (\<lparr>macro = n, positive = True, taken = defined (macros st) n\<rparr> # cs) st"
| "run (Define n body # ls) cs st =
     run ls cs (if active cs then st\<lparr>macros := (n, body) # macros st\<rparr> else st)"
| "run (Endif # ls) cs st =
     (case cs of [] \<Rightarrow> Inl EndifWithoutIf | c # cs' \<Rightarrow> run ls cs' st)"
| "run (Text ts # ls) cs st =
     run ls cs
       (if active cs
        then st\<lparr>out := out st @ map (Pair (guards cs)) (expand (macros st) [] ts)\<rparr>
        else st)"

text \<open>\<^verbatim>\<open>#include "kmp_process_sys.h"\<close> at a point where the unit's state is \<open>st\<close>.\<close>

definition include_header :: "unit_state \<Rightarrow> pp_error + unit_state" where
  "include_header st = run kmp_process_sys_h [] st"

text \<open>The tokens the compiler sees.\<close>

definition tokens :: "unit_state \<Rightarrow> token list" where
  "tokens st = map snd (out st)"

text \<open>The state a translation unit starts in, under the build's macro definitions.\<close>

definition start :: "macro_table \<Rightarrow> unit_state" where
  "start env = \<lparr>macros = env, out = []\<rparr>"

text \<open>The tokens one inclusion appends to a unit that was in state \<open>st\<close> before.\<close>

definition added :: "unit_state \<Rightarrow> unit_state \<Rightarrow> token list" where
  "added st st' = drop (length (out st)) (tokens st')"

text \<open>Two \<^verbatim>\<open>#include\<close> directives for the header, one after the other.\<close>

definition include_twice :: "unit_state \<Rightarrow> pp_error + unit_state" where
  "include_twice st =
     (case include_header st of Inl e \<Rightarrow> Inl e | Inr st' \<Rightarrow> include_header st')"

text \<open>
  A translation unit that consists of the header alone, preprocessed under the build's
  macro definitions: the tokens the compiler sees.
\<close>

definition header_tokens :: "macro_table \<Rightarrow> pp_error + token list" where
  "header_tokens env =
     (case include_header (start env) of Inl e \<Rightarrow> Inl e | Inr st' \<Rightarrow> Inr (tokens st'))"

subsection \<open>Function declarations\<close>

text \<open>
  What a function declarator says about the parameters. In C (up to C17, the language of
  a \<^verbatim>\<open>.h\<close> file given to a C compiler) empty parentheses declare a function without a
  prototype: the number and the types of its parameters are left unspecified, and a call
  with any arguments is accepted. Only \<^verbatim>\<open>(void)\<close> declares that the function takes no
  argument.
\<close>

datatype param_list = Unspecified | NoParameters | Parameters "token list"

definition param_list_of :: "token list \<Rightarrow> param_list" where
  "param_list_of ts =
     (if ts = [] then Unspecified
      else if ts = [Ident ''void''] then NoParameters
      else Parameters ts)"

text \<open>
  A declaration of the shape \<^verbatim>\<open>type name ( parameters ) ;\<close>: the return type, the
  function's name and what the tokens between the parentheses declare.
\<close>

record fun_sig =
  ret_type :: string
  fun_name :: string
  params :: param_list

fun parse_decl :: "token list \<Rightarrow> fun_sig option" where
  "parse_decl (Ident r # Ident f # Punct l # rest) =
     (if l = ''('' \<and> dropWhile (\<lambda>t. t \<noteq> Punct '')'') rest = [Punct '')'', Punct '';'']
      then Some \<lparr>ret_type = r, fun_name = f,
                 params = param_list_of (takeWhile (\<lambda>t. t \<noteq> Punct '')'') rest)\<rparr>
      else None)"
| "parse_decl _ = None"



subsection \<open>Platforms\<close>

text \<open>
  The platforms whose declarations are visible in a build: the \<^verbatim>\<open>#ifdef\<close> macros under
  which the header emitted tokens.
\<close>

definition visible_platforms :: "macro_table \<Rightarrow> pp_error + string list" where
  "visible_platforms env =
     (case include_header (start env) of
        Inl e \<Rightarrow> Inl e
      | Inr st' \<Rightarrow> Inr (remdups (concat (map fst (out st')))))"

definition exactly_one_platform :: "macro_table \<Rightarrow> bool" where
  "exactly_one_platform env =
     (case visible_platforms env of Inr [p] \<Rightarrow> True | _ \<Rightarrow> False)"

text \<open>Build configurations used below: what \<^verbatim>\<open>-D\<close> options and the target define.\<close>

definition android_build :: macro_table where
  "android_build = [(ANDROID, [Number ''1''])]"

definition linux_build :: macro_table where
  "linux_build = [(''__linux__'', [Number ''1''])]"

definition debug_android_build :: macro_table where
  "debug_android_build = [(''DEBUG'', [Number ''1'']), (ANDROID, [Number ''1''])]"

text \<open>A Linux build with \<^verbatim>\<open>-Dint=long\<close>.\<close>

definition retyped_linux_build :: macro_table where
  "retyped_linux_build = [(''int'', [Ident ''long'']), (''__linux__'', [Number ''1''])]"

text \<open>An Android build with \<^verbatim>\<open>-Dint=long\<close>.\<close>

definition retyped_build :: macro_table where
  "retyped_build = [(''int'', [Ident ''long'']), (ANDROID, [Number ''1''])]"

text \<open>An Android build with \<^verbatim>\<open>-D__SYS_pipe2=pipe2_impl\<close>.\<close>

definition renamed_build :: macro_table where
  "renamed_build = [(SYS_pipe2, [Ident ''pipe2_impl'']), (ANDROID, [Number ''1''])]"

section \<open>What one inclusion does\<close>

lemma include_header_eq:
  "include_header st =
     Inr (if defined (macros st) KMP_PROCESS_SYS_H then st
          else st\<lparr>macros := (KMP_PROCESS_SYS_H, []) # macros st,
                  out := out st @
                    (if defined (macros st) ANDROID
                     then map (Pair [ANDROID])
                            (expand ((KMP_PROCESS_SYS_H, []) # macros st) [] decl_line)
                     else [])\<rparr>)"
  by (simp add: include_header_def kmp_process_sys_h_def active_def guards_def defined_def
      KMP_PROCESS_SYS_H_def ANDROID_def)

text \<open>Whoever includes the header, preprocessing it never fails.\<close>

lemma include_header_total: "\<exists>st'. include_header st = Inr st'"
  by (simp add: include_header_eq)

text \<open>
  A unit whose lines are one file followed by another is preprocessed as the first file
  and then the second, when the first closes every group it opens.
\<close>

lemma run_append:
  "run a cs st = Inr st' \<Longrightarrow> run (a @ b) cs st = run b [] st'"
proof (induction a cs st rule: run.induct)
  case (1 cs st)
  then show ?case by (simp split: if_splits)
next
  case (5 ls cs st)
  then show ?case by (cases cs) simp_all
qed simp_all

text \<open>Where neither identifier of line 22 names a macro, the line passes unchanged.\<close>

lemma expand_decl_line_plain:
  assumes "\<not> defined env ''int''" and "\<not> defined env SYS_pipe2"
  shows "expand ((KMP_PROCESS_SYS_H, []) # env) [] decl_line = decl_line"
  using assms
  by (simp add: decl_line_def defined_def KMP_PROCESS_SYS_H_def SYS_pipe2_def)

text \<open>Punctuators are never replaced, so line 22 always leaves tokens.\<close>

lemma expand_decl_line_nonempty: "expand env [] decl_line \<noteq> []"
  by (simp add: decl_line_def split: option.splits)

lemma header_tokens_eq:
  "header_tokens env =
     Inr (if defined env KMP_PROCESS_SYS_H \<or> \<not> defined env ANDROID then []
          else expand ((KMP_PROCESS_SYS_H, []) # env) [] decl_line)"
  by (simp add: header_tokens_def include_header_eq start_def tokens_def comp_def)

text \<open>
  A unit that is the header alone, in a build that defines neither \<open>int\<close> nor
  \<^verbatim>\<open>__SYS_pipe2\<close> as a macro: the compiler sees line 22 as written, or nothing.
\<close>

lemma header_tokens_plain:
  assumes "\<not> defined env ''int''" and "\<not> defined env SYS_pipe2"
  shows "header_tokens env =
     Inr (if defined env ANDROID \<and> \<not> defined env KMP_PROCESS_SYS_H then decl_line else [])"
  using assms by (simp add: header_tokens_eq expand_decl_line_plain)

lemma remdups_one_guard:
  "xs \<noteq> [] \<Longrightarrow> remdups (concat (map (fst \<circ> Pair [a]) xs)) = [a]"
proof (induction xs)
  case Nil
  then show ?case by simp
next
  case (Cons x xs)
  then show ?case by (cases xs) simp_all
qed

section \<open>The platform guard\<close>

text \<open>
  C1. Where \<^verbatim>\<open>__ANDROID__\<close> is not defined, including the header passes no token on to
  the compiler: the unit's output is what it was before, and the name \<^verbatim>\<open>__SYS_pipe2\<close> is
  not among the tokens the inclusion adds. This holds wherever in a unit the header is
  included and whatever else is defined.
\<close>

theorem C1_guard_exclusivity:
  assumes "\<not> defined (macros st) ANDROID"
  shows "\<exists>st'. include_header st = Inr st' \<and> out st' = out st \<and>
           Ident SYS_pipe2 \<notin> set (added st st')"
  using assms by (simp add: include_header_eq added_def tokens_def)

theorem C1_guard_exclusivity_witness:
  "\<not> defined (macros (start linux_build)) ANDROID \<and>
   (\<exists>st'. include_header (start linux_build) = Inr st' \<and> out st' = [] \<and>
      Ident SYS_pipe2 \<notin> set (added (start linux_build) st'))"
proof -
  have h: "\<not> defined (macros (start linux_build)) ANDROID"
    by (simp add: start_def linux_build_def defined_def ANDROID_def)
  show ?thesis
    using h C1_guard_exclusivity [OF h] by (simp add: start_def)
qed

section \<open>The include guard\<close>

text \<open>
  C2. In a unit built for Android, a second \<^verbatim>\<open>#include\<close> of the header is a no-op:
  including it twice gives the state that including it once gives (the same macro table
  and the same tokens), whether the two inclusions are taken as two steps or the header's
  lines are laid out twice in the unit; preprocessing does not fail; and the tokens of
  line 22 are added once on a first inclusion and not at all on a later one.
\<close>

theorem C2_include_guard_idempotent:
  assumes "defined (macros st) ANDROID"
  shows "include_twice st = include_header st \<and>
         run (kmp_process_sys_h @ kmp_process_sys_h) [] st = include_header st \<and>
         (\<exists>st'. include_twice st = Inr st' \<and>
            added st st' =
              (if defined (macros st) KMP_PROCESS_SYS_H then []
               else expand ((KMP_PROCESS_SYS_H, []) # macros st) [] decl_line))"
proof -
  have twice: "include_twice st = include_header st"
    by (simp add: include_twice_def include_header_eq defined_def)
  obtain st' where once: "include_header st = Inr st'"
    using include_header_total by blast
  have "run (kmp_process_sys_h @ kmp_process_sys_h) [] st = include_twice st"
    using run_append [of kmp_process_sys_h "[]" st st' kmp_process_sys_h] once
    by (simp add: include_header_def include_twice_def)
  moreover have "added st st' =
      (if defined (macros st) KMP_PROCESS_SYS_H then []
       else expand ((KMP_PROCESS_SYS_H, []) # macros st) [] decl_line)"
    using once assms by (auto simp add: include_header_eq added_def tokens_def comp_def)
  ultimately show ?thesis
    using twice once by simp
qed

theorem C2_include_guard_idempotent_witness:
  "defined (macros (start android_build)) ANDROID \<and>
   include_twice (start android_build) = include_header (start android_build) \<and>
   include_header (start android_build) =
     Inr \<lparr>macros = (KMP_PROCESS_SYS_H, []) # android_build,
          out = map (Pair [ANDROID]) decl_line\<rparr>"
proof -
  have h: "defined (macros (start android_build)) ANDROID"
    by (simp add: start_def android_build_def defined_def)
  have e: "expand ((KMP_PROCESS_SYS_H, []) # android_build) [] decl_line = decl_line"
    by (rule expand_decl_line_plain)
       (simp_all add: android_build_def defined_def ANDROID_def SYS_pipe2_def)
  have "include_header (start android_build) =
     Inr \<lparr>macros = (KMP_PROCESS_SYS_H, []) # android_build,
          out = map (Pair [ANDROID]) decl_line\<rparr>"
    using e
    by (simp add: include_header_eq start_def android_build_def defined_def
        KMP_PROCESS_SYS_H_def ANDROID_def)
  with h C2_include_guard_idempotent [OF h] show ?thesis by simp
qed

text \<open>
  C8. The include guard does not depend on the platform. From any state, the first
  inclusion succeeds and leaves \<^verbatim>\<open>KMP_PROCESS_SYS_H\<close> defined, a further inclusion
  changes nothing, and so including twice gives what including once gives.
\<close>

theorem C8_idempotent_everywhere:
  "\<exists>st'. include_header st = Inr st' \<and> defined (macros st') KMP_PROCESS_SYS_H \<and>
         include_header st' = Inr st' \<and> include_twice st = Inr st'"
  by (simp add: include_twice_def include_header_eq defined_def)

section \<open>The signature\<close>


text \<open>What the zero-argument declaration would read as.\<close>

lemma parse_decl_void:
  "parse_decl [Ident ''int'', Ident SYS_pipe2, Punct ''('', Ident ''void'', Punct '')'',
               Punct '';''] =
     Some \<lparr>ret_type = ''int'', fun_name = SYS_pipe2, params = NoParameters\<rparr>"
  by (simp add: param_list_of_def)


section \<open>Platforms\<close>

text \<open>
  The header has one platform group, Android's, and no \<^verbatim>\<open>#else\<close>. A build for another
  platform sees no platform's declarations: the Linux build is one.
\<close>

theorem C4_counterexample: "\<not> exactly_one_platform linux_build"
  by (simp add: exactly_one_platform_def visible_platforms_def include_header_eq start_def
      linux_build_def defined_def KMP_PROCESS_SYS_H_def ANDROID_def)

text \<open>
  C4, amended. In every build at most one platform's declarations are visible after
  preprocessing the header: Android's alone when \<^verbatim>\<open>__ANDROID__\<close> is defined (and the
  include guard is not yet), and no platform's otherwise. No build makes two platforms'
  declarations visible.
\<close>

theorem C4_at_most_one_platform:
  "\<exists>ps. visible_platforms env = Inr ps \<and> length ps \<le> 1 \<and>
        ps = (if defined env ANDROID \<and> \<not> defined env KMP_PROCESS_SYS_H
              then [ANDROID] else [])"
  by (simp add: visible_platforms_def include_header_eq start_def remdups_one_guard
      expand_decl_line_nonempty)

section \<open>What the output depends on\<close>

text \<open>
  Line 22 is a text line, so its identifiers undergo macro replacement. Two Android
  builds that agree on \<^verbatim>\<open>__ANDROID__\<close> and on \<^verbatim>\<open>KMP_PROCESS_SYS_H\<close>, one of them with
  \<^verbatim>\<open>-Dint=long\<close>, give different output.
\<close>

theorem C9_counterexample:
  "defined android_build ANDROID = defined retyped_build ANDROID \<and>
   defined android_build KMP_PROCESS_SYS_H = defined retyped_build KMP_PROCESS_SYS_H \<and>
   header_tokens android_build \<noteq> header_tokens retyped_build"
  by (simp add: header_tokens_eq android_build_def retyped_build_def defined_def
      decl_line_def KMP_PROCESS_SYS_H_def ANDROID_def SYS_pipe2_def)

text \<open>
  C9, amended. Two builds that agree on whether \<^verbatim>\<open>__ANDROID__\<close> is defined and on whether
  \<^verbatim>\<open>KMP_PROCESS_SYS_H\<close> is defined produce the same output, whatever else they define,
  provided that, where line 22 is emitted (\<^verbatim>\<open>__ANDROID__\<close> defined, the include guard
  not), neither build defines \<open>int\<close> or \<^verbatim>\<open>__SYS_pipe2\<close> as a macro. The output is then the
  tokens of line 22 as written when the line is emitted, and empty otherwise.
\<close>

theorem C9_output_determined:
  assumes "defined e1 ANDROID = defined e2 ANDROID"
    and "defined e1 KMP_PROCESS_SYS_H = defined e2 KMP_PROCESS_SYS_H"
    and "defined e1 ANDROID \<and> \<not> defined e1 KMP_PROCESS_SYS_H \<longrightarrow>
         \<not> defined e1 ''int'' \<and> \<not> defined e1 SYS_pipe2 \<and>
         \<not> defined e2 ''int'' \<and> \<not> defined e2 SYS_pipe2"
  shows "header_tokens e1 = header_tokens e2 \<and>
         header_tokens e1 =
           Inr (if defined e1 ANDROID \<and> \<not> defined e1 KMP_PROCESS_SYS_H
                then decl_line else [])"
proof (cases "defined e1 ANDROID \<and> \<not> defined e1 KMP_PROCESS_SYS_H")
  case True
  with assms(3) have "header_tokens e1 = Inr decl_line"
    by (simp add: header_tokens_plain)
  moreover from True assms have "header_tokens e2 = Inr decl_line"
    by (simp add: header_tokens_plain)
  ultimately show ?thesis using True by simp
next
  case False
  then have "header_tokens e1 = Inr []"
    by (auto simp add: header_tokens_eq)
  moreover from False assms(1,2) have "header_tokens e2 = Inr []"
    by (auto simp add: header_tokens_eq)
  ultimately show ?thesis using False by auto
qed

theorem C9_output_determined_witness:
  "defined android_build ANDROID \<and> \<not> defined android_build KMP_PROCESS_SYS_H \<and>
   defined debug_android_build ANDROID \<and> \<not> defined debug_android_build KMP_PROCESS_SYS_H \<and>
   \<not> defined android_build ''int'' \<and> \<not> defined android_build SYS_pipe2 \<and>
   \<not> defined debug_android_build ''int'' \<and> \<not> defined debug_android_build SYS_pipe2 \<and>
   defined debug_android_build ''DEBUG'' \<and> \<not> defined android_build ''DEBUG'' \<and>
   header_tokens android_build = header_tokens debug_android_build \<and>
   header_tokens android_build = Inr decl_line \<and>
   \<not> defined linux_build ANDROID \<and> \<not> defined retyped_linux_build ANDROID \<and>
   \<not> defined linux_build KMP_PROCESS_SYS_H \<and>
   \<not> defined retyped_linux_build KMP_PROCESS_SYS_H \<and>
   defined retyped_linux_build ''int'' \<and> \<not> defined linux_build ''int'' \<and>
   header_tokens linux_build = header_tokens retyped_linux_build \<and>
   header_tokens linux_build = Inr []"
proof -
  have a: "defined android_build ANDROID" "\<not> defined android_build KMP_PROCESS_SYS_H"
    "\<not> defined android_build ''int''" "\<not> defined android_build SYS_pipe2"
    "\<not> defined android_build ''DEBUG''"
    by (simp_all add: android_build_def defined_def KMP_PROCESS_SYS_H_def ANDROID_def
        SYS_pipe2_def)
  have d: "defined debug_android_build ANDROID"
    "\<not> defined debug_android_build KMP_PROCESS_SYS_H"
    "\<not> defined debug_android_build ''int''" "\<not> defined debug_android_build SYS_pipe2"
    "defined debug_android_build ''DEBUG''"
    by (simp_all add: debug_android_build_def defined_def KMP_PROCESS_SYS_H_def ANDROID_def
        SYS_pipe2_def)
  have l: "\<not> defined linux_build ANDROID" "\<not> defined linux_build KMP_PROCESS_SYS_H"
    "\<not> defined linux_build ''int''"
    by (simp_all add: linux_build_def defined_def KMP_PROCESS_SYS_H_def ANDROID_def)
  have r: "\<not> defined retyped_linux_build ANDROID"
    "\<not> defined retyped_linux_build KMP_PROCESS_SYS_H"
    "defined retyped_linux_build ''int''"
    by (simp_all add: retyped_linux_build_def defined_def KMP_PROCESS_SYS_H_def ANDROID_def)
  have ea: "defined android_build ANDROID = defined debug_android_build ANDROID"
    using a d by simp
  have eg: "defined android_build KMP_PROCESS_SYS_H =
            defined debug_android_build KMP_PROCESS_SYS_H"
    using a d by simp
  have ep: "defined android_build ANDROID \<and> \<not> defined android_build KMP_PROCESS_SYS_H \<longrightarrow>
      \<not> defined android_build ''int'' \<and> \<not> defined android_build SYS_pipe2 \<and>
      \<not> defined debug_android_build ''int'' \<and> \<not> defined debug_android_build SYS_pipe2"
    using a d by simp
  have emitted: "header_tokens android_build = header_tokens debug_android_build \<and>
      header_tokens android_build = Inr decl_line"
  proof
    show "header_tokens android_build = header_tokens debug_android_build"
      by (rule conjunct1 [OF C9_output_determined [OF ea eg ep]])
    show "header_tokens android_build = Inr decl_line"
      using conjunct2 [OF C9_output_determined [OF ea eg ep]] a by simp
  qed
  have sa: "defined linux_build ANDROID = defined retyped_linux_build ANDROID"
    using l r by simp
  have sg: "defined linux_build KMP_PROCESS_SYS_H =
            defined retyped_linux_build KMP_PROCESS_SYS_H"
    using l r by simp
  have sp: "defined linux_build ANDROID \<and> \<not> defined linux_build KMP_PROCESS_SYS_H \<longrightarrow>
      \<not> defined linux_build ''int'' \<and> \<not> defined linux_build SYS_pipe2 \<and>
      \<not> defined retyped_linux_build ''int'' \<and> \<not> defined retyped_linux_build SYS_pipe2"
    using l by simp
  have skipped: "header_tokens linux_build = header_tokens retyped_linux_build \<and>
      header_tokens linux_build = Inr []"
  proof
    show "header_tokens linux_build = header_tokens retyped_linux_build"
      by (rule conjunct1 [OF C9_output_determined [OF sa sg sp]])
    show "header_tokens linux_build = Inr []"
      using conjunct2 [OF C9_output_determined [OF sa sg sp]] l by simp
  qed
  show ?thesis
    by (intro conjI a d l r conjunct1 [OF emitted] conjunct2 [OF emitted]
        conjunct1 [OF skipped] conjunct2 [OF skipped])
qed

section \<open>What an inclusion changes\<close>

text \<open>
  In an Android build with \<^verbatim>\<open>-D__SYS_pipe2=pipe2_impl\<close> the header declares the function
  \<^verbatim>\<open>pipe2_impl\<close>: a name that is neither \<^verbatim>\<open>__SYS_pipe2\<close> nor \<^verbatim>\<open>KMP_PROCESS_SYS_H\<close>.
\<close>

theorem C10_counterexample:
  "header_tokens renamed_build =
     Inr [Ident ''int'', Ident ''pipe2_impl'', Punct ''('', Punct '')'', Punct '';''] \<and>
   parse_decl [Ident ''int'', Ident ''pipe2_impl'', Punct ''('', Punct '')'', Punct '';''] =
     Some \<lparr>ret_type = ''int'', fun_name = ''pipe2_impl'', params = Unspecified\<rparr> \<and>
   ''pipe2_impl'' \<noteq> SYS_pipe2 \<and> ''pipe2_impl'' \<noteq> KMP_PROCESS_SYS_H"
  by (simp add: header_tokens_eq renamed_build_def defined_def decl_line_def
      KMP_PROCESS_SYS_H_def ANDROID_def SYS_pipe2_def param_list_of_def)

text \<open>
  C10, amended. An inclusion succeeds from any state. To the macro table it adds
  \<^verbatim>\<open>KMP_PROCESS_SYS_H\<close> on a first inclusion and nothing later, and every other macro
  keeps its definition. The tokens passed on before stay as they were. Where neither
  \<^verbatim>\<open>int\<close> nor \<^verbatim>\<open>__SYS_pipe2\<close> is defined as a macro, the tokens added are those of the
  declaration \<^verbatim>\<open>int __SYS_pipe2();\<close> on a first inclusion with \<^verbatim>\<open>__ANDROID__\<close> defined,
  and none otherwise.
\<close>

theorem C10_frame:
  "\<exists>st'. include_header st = Inr st' \<and>
     macros st' = (if defined (macros st) KMP_PROCESS_SYS_H then macros st
                   else (KMP_PROCESS_SYS_H, []) # macros st) \<and>
     (\<forall>n. n \<noteq> KMP_PROCESS_SYS_H \<longrightarrow> map_of (macros st') n = map_of (macros st) n) \<and>
     take (length (out st)) (out st') = out st \<and>
     (\<not> defined (macros st) ''int'' \<and> \<not> defined (macros st) SYS_pipe2 \<longrightarrow>
        added st st' =
          (if defined (macros st) ANDROID \<and> \<not> defined (macros st) KMP_PROCESS_SYS_H
           then decl_line else []))"
  by (simp add: include_header_eq added_def tokens_def comp_def expand_decl_line_plain)

theorem C10_frame_witness:
  "\<not> defined (macros (start android_build)) ''int'' \<and>
   \<not> defined (macros (start android_build)) SYS_pipe2 \<and>
   ANDROID \<noteq> KMP_PROCESS_SYS_H \<and>
   (\<exists>st'. include_header (start android_build) = Inr st' \<and>
      macros st' = (KMP_PROCESS_SYS_H, []) # android_build \<and>
      map_of (macros st') ANDROID = Some [Number ''1''] \<and>
      added (start android_build) st' = decl_line)"
proof -
  have h: "\<not> defined (macros (start android_build)) ''int'' \<and>
           \<not> defined (macros (start android_build)) SYS_pipe2"
    by (simp add: start_def android_build_def defined_def ANDROID_def SYS_pipe2_def)
  have n: "ANDROID \<noteq> KMP_PROCESS_SYS_H"
    by (simp add: ANDROID_def KMP_PROCESS_SYS_H_def)
  have d: "defined (macros (start android_build)) ANDROID \<and>
           \<not> defined (macros (start android_build)) KMP_PROCESS_SYS_H"
    by (simp add: start_def android_build_def defined_def ANDROID_def KMP_PROCESS_SYS_H_def)
  have m: "map_of (macros (start android_build)) ANDROID = Some [Number ''1'']"
    by (simp add: start_def android_build_def)
  from C10_frame [of "start android_build"] obtain st' where
    r: "include_header (start android_build) = Inr st'" and
    t: "macros st' = (if defined (macros (start android_build)) KMP_PROCESS_SYS_H
                      then macros (start android_build)
                      else (KMP_PROCESS_SYS_H, []) # macros (start android_build))" and
    k: "\<forall>n. n \<noteq> KMP_PROCESS_SYS_H \<longrightarrow>
          map_of (macros st') n = map_of (macros (start android_build)) n" and
    o: "\<not> defined (macros (start android_build)) ''int'' \<and>
        \<not> defined (macros (start android_build)) SYS_pipe2 \<longrightarrow>
        added (start android_build) st' =
          (if defined (macros (start android_build)) ANDROID \<and>
              \<not> defined (macros (start android_build)) KMP_PROCESS_SYS_H
           then decl_line else [])"
    by blast
  from t d have "macros st' = (KMP_PROCESS_SYS_H, []) # android_build"
    by (simp add: start_def)
  moreover from k n m have "map_of (macros st') ANDROID = Some [Number ''1'']"
    by simp
  moreover from o h d have "added (start android_build) st' = decl_line"
    by simp
  ultimately show ?thesis
    using h n r by blast
qed

end
